theory Spec2Isabelle
  imports Main
begin

section \<open>JavaScript strings\<close>

text \<open>
  A JavaScript string is a sequence of UTF-16 code units. Code units are natural numbers
  here; \<open>lit\<close> turns an ASCII literal of the source into its code units.
\<close>

type_synonym js_string = "nat list"

definition lit :: "string \<Rightarrow> js_string" where
  "lit s = map of_char s"

text \<open>
  The code units that \<open>String.prototype.trim\<close> strips: ECMAScript's WhiteSpace (TAB, VT,
  FF, ZWNBSP and the Unicode space separators) and LineTerminator (LF, CR, LS, PS).
\<close>

definition isWhiteSpace :: "nat \<Rightarrow> bool" where
  "isWhiteSpace c =
     (c = 9 \<or> c = 10 \<or> c = 11 \<or> c = 12 \<or> c = 13 \<or> c = 32 \<or> c = 160 \<or> c = 5760 \<or>
      (8192 \<le> c \<and> c \<le> 8202) \<or> c = 8232 \<or> c = 8233 \<or> c = 8239 \<or> c = 8287 \<or>
      c = 12288 \<or> c = 65279)"

definition trim :: "js_string \<Rightarrow> js_string" where
  "trim s = rev (dropWhile isWhiteSpace (rev (dropWhile isWhiteSpace s)))"

definition startsWith :: "js_string \<Rightarrow> js_string \<Rightarrow> bool" where
  "startsWith s p = (take (length p) s = p)"

text \<open>\<open>s.split(sep)\<close> for a separator of one code unit: never the empty list.\<close>

fun js_split :: "js_string \<Rightarrow> nat \<Rightarrow> js_string list" where
  "js_split [] sep = [[]]"
| "js_split (c # cs) sep =
     (if c = sep then [] # js_split cs sep
      else (case js_split cs sep of
              [] \<Rightarrow> [[c]]
            | x # xs \<Rightarrow> (c # x) # xs))"

text \<open>\<open>xs[i]\<close>: \<open>undefined\<close> (here \<open>None\<close>) out of range.\<close>

definition at_index :: "'a list \<Rightarrow> nat \<Rightarrow> 'a option" where
  "at_index xs i = (if i < length xs then Some (xs ! i) else None)"

section \<open>The generative-model SDK as the code uses it\<close>

text \<open>
  The SDK's declarations are not part of the repository. The request is the object literal
  the code builds; of the response, the code reads \<open>candidates\<close>, \<open>content\<close>, \<open>parts\<close> and
  \<open>inlineData\<close>, each of which may be missing. The data of an inline part is a string, as
  the return type of \<open>editImageWithGemini\<close> declares.
\<close>

datatype Modality = MODALITY_UNSPECIFIED | TEXT | IMAGE | AUDIO

text \<open>
  The first request part carries \<open>base64ImageData\<close>. Its declared type is \<open>string\<close>, but the
  caller passes \<open>url.split(',')[1]\<close>, which is \<open>undefined\<close> for a URL without a comma.
\<close>

datatype request_part = ReqInlineData "js_string option" js_string | ReqText js_string

record request =
  model :: js_string
  contents :: "request_part list"
  responseModalities :: "Modality list"

record blob =
  data :: js_string
  mimeType :: js_string

record part =
  inlineData :: "blob option"
  partText :: "js_string option"

record content =
  parts :: "part list option"

record candidate =
  content :: "content option"

record response =
  candidates :: "candidate list option"

text \<open>A thrown value: an \<open>Error\<close> or a \<open>TypeError\<close> with its message.\<close>

datatype exn = Error js_string | TypeError js_string

record client =
  apiKey :: js_string

text \<open>
  What a run does to the outside world, in order: constructing the client, sending a
  request through it, writing to the console.
\<close>

datatype log_arg = Str js_string | Exn exn

datatype effect =
    NewGoogleGenAI js_string
  | GenerateContent client request
  | ConsoleError "log_arg list"

text \<open>
  \<open>ai.models.generateContent\<close>: the SDK and the network behind it, resolving with a
  response or rejecting with a thrown value.
\<close>

type_synonym sdk = "client \<Rightarrow> request \<Rightarrow> exn + response"

section \<open>services/geminiService.ts\<close>

text \<open>
  The module body: \<open>!API_KEY\<close> holds for \<open>undefined\<close> and for the empty string; then the
  module throws, otherwise it constructs the client.
\<close>

definition module_init :: "js_string option \<Rightarrow> effect list \<times> (exn + client)" where
  "module_init API_KEY =
     (case API_KEY of
        None \<Rightarrow> ([], Inl (Error (lit ''API_KEY environment variable not set.'')))
      | Some k \<Rightarrow>
          if k = [] then ([], Inl (Error (lit ''API_KEY environment variable not set.'')))
          else ([NewGoogleGenAI k], Inr \<lparr>apiKey = k\<rparr>))"

definition generate_request :: "js_string option \<Rightarrow> js_string \<Rightarrow> js_string \<Rightarrow> request" where
  "generate_request base64ImageData mime promptText =
     \<lparr>model = lit ''gemini-2.5-flash-image'',
      contents = [ReqInlineData base64ImageData mime, ReqText promptText],
      responseModalities = [IMAGE]\<rparr>"

text \<open>\<open>response.candidates?.[0]?.content?.parts || []\<close>\<close>

definition response_parts :: "response \<Rightarrow> part list" where
  "response_parts r =
     (case candidates r of
        None \<Rightarrow> []
      | Some [] \<Rightarrow> []
      | Some (c # _) \<Rightarrow>
          (case content c of
             None \<Rightarrow> []
           | Some ct \<Rightarrow> (case parts ct of None \<Rightarrow> [] | Some ps \<Rightarrow> ps)))"

text \<open>The \<open>for\<close> loop: \<open>Some\<close> is its \<open>return\<close>, \<open>None\<close> is falling out of the loop.\<close>

fun scan_parts :: "part list \<Rightarrow> js_string option" where
  "scan_parts [] = None"
| "scan_parts (p # ps) =
     (case inlineData p of
        Some b \<Rightarrow> Some (data b)
      | None \<Rightarrow> scan_parts ps)"

text \<open>The \<open>try\<close> block: \<open>Inl\<close> is what it throws, \<open>Inr\<close> what it returns.\<close>

definition try_block ::
  "sdk \<Rightarrow> client \<Rightarrow> js_string option \<Rightarrow> js_string \<Rightarrow> js_string \<Rightarrow> exn + js_string" where
  "try_block generateContent ai base64ImageData mime promptText =
     (case generateContent ai (generate_request base64ImageData mime promptText) of
        Inl e \<Rightarrow> Inl e
      | Inr r \<Rightarrow>
          (case scan_parts (response_parts r) of
             Some d \<Rightarrow> Inr d
           | None \<Rightarrow> Inl (Error (lit ''No image data found in the API response.''))))"

text \<open>The function: the \<open>try\<close> block under its \<open>catch\<close>, which logs and throws anew.\<close>

definition editImageWithGemini ::
  "sdk \<Rightarrow> client \<Rightarrow> js_string option \<Rightarrow> js_string \<Rightarrow> js_string
     \<Rightarrow> effect list \<times> (exn + js_string)" where
  "editImageWithGemini generateContent ai base64ImageData mime promptText =
     (case try_block generateContent ai base64ImageData mime promptText of
        Inr d \<Rightarrow>
          ([GenerateContent ai (generate_request base64ImageData mime promptText)], Inr d)
      | Inl e \<Rightarrow>
          ([GenerateContent ai (generate_request base64ImageData mime promptText),
            ConsoleError [Str (lit ''Error calling Gemini API:''), Exn e]],
           Inl (Error (lit ''Failed to generate image with Gemini API.''))))"

text \<open>
  A run of the module: its body once, then the calls its importers make of the exported
  function, each with the behaviour of the network at that moment. A module whose body
  throws exports nothing, so no call happens.
\<close>

type_synonym edit_call = "sdk \<times> js_string option \<times> js_string \<times> js_string"

fun call_all :: "client \<Rightarrow> edit_call list \<Rightarrow> effect list" where
  "call_all ai [] = []"
| "call_all ai ((generateContent, b, m, p) # cs) =
     fst (editImageWithGemini generateContent ai b m p) @ call_all ai cs"

definition run_module :: "js_string option \<Rightarrow> edit_call list \<Rightarrow> effect list \<times> exn option" where
  "run_module API_KEY cs =
     (case module_init API_KEY of
        (fx, Inl e) \<Rightarrow> (fx, Some e)
      | (fx, Inr ai) \<Rightarrow> (fx @ call_all ai cs, None))"

fun is_construction :: "effect \<Rightarrow> bool" where
  "is_construction (NewGoogleGenAI _) = True"
| "is_construction _ = False"

fun request_client :: "effect \<Rightarrow> client option" where
  "request_client (GenerateContent c _) = Some c"
| "request_client _ = None"

section \<open>App.tsx\<close>

text \<open>
  Of a \<open>File\<close> the component reads \<open>name\<close> and \<open>type\<close>. The field \<open>file\<close> of \<open>ImageState\<close> is
  \<open>imageFile\<close> here.
\<close>

record File =
  name :: js_string
  type :: js_string

record ImageState =
  imageFile :: File
  url :: js_string

text \<open>The five \<open>useState\<close> cells of the component.\<close>

record app_state =
  originalImage :: "ImageState option"
  editedImageUrl :: "js_string option"
  prompt :: js_string
  isLoading :: bool
  error :: "js_string option"

text \<open>
  \<open>handleFileChange\<close> suspends at \<open>await fileToBase64(file)\<close>. Its first half runs up to the
  \<open>await\<close> and yields the file being read, if any; its second half runs when the read
  settles, on the state of that moment. \<open>fileToBase64\<close> is not under the sources: it is a
  parameter, resolving with a URL or rejecting.
\<close>

definition handleFileChange :: "File option \<Rightarrow> app_state \<Rightarrow> app_state \<times> File option" where
  "handleFileChange files0 s =
     (case files0 of
        None \<Rightarrow> (s, None)
      | Some f \<Rightarrow>
          if \<not> startsWith (type f) (lit ''image/'')
          then (s\<lparr>error := Some (lit ''Please upload a valid image file (PNG, JPG, etc.).'')\<rparr>,
                None)
          else (s\<lparr>error := None, editedImageUrl := None\<rparr>, Some f))"

definition handleFileChange_resume :: "File \<Rightarrow> exn + js_string \<Rightarrow> app_state \<Rightarrow> app_state" where
  "handleFileChange_resume f settled s =
     (case settled of
        Inl e \<Rightarrow> s
      | Inr u \<Rightarrow> s\<lparr>originalImage := Some \<lparr>imageFile = f, url = u\<rparr>\<rparr>)"

text \<open>
  The handler run from its start to its end, with no other handler run between its halves.
\<close>

definition handleFileChange_run ::
  "(File \<Rightarrow> exn + js_string) \<Rightarrow> File option \<Rightarrow> app_state \<Rightarrow> app_state" where
  "handleFileChange_run fileToBase64 files0 s =
     (case handleFileChange files0 s of
        (s1, None) \<Rightarrow> s1
      | (s1, Some f) \<Rightarrow> handleFileChange_resume f (fileToBase64 f) s1)"

definition handleRemoveImage :: "app_state \<Rightarrow> app_state" where
  "handleRemoveImage s = s\<lparr>originalImage := None, editedImageUrl := None, error := None\<rparr>"

text \<open>
  \<open>handleSubmit\<close> suspends at \<open>await editImageWithGemini(...)\<close>. Its first half validates,
  sets the loading state and yields the arguments of the call, if it makes one; its second
  half is the rest of the \<open>try\<close>, the \<open>catch\<close> and the \<open>finally\<close>.
\<close>

definition handleSubmit ::
  "app_state \<Rightarrow> app_state \<times> (js_string option \<times> js_string \<times> js_string) option" where
  "handleSubmit s =
     (case originalImage s of
        None \<Rightarrow> (s\<lparr>error := Some (lit ''Please upload an image and enter a prompt.'')\<rparr>, None)
      | Some img \<Rightarrow>
          if trim (prompt s) = []
          then (s\<lparr>error := Some (lit ''Please upload an image and enter a prompt.'')\<rparr>, None)
          else (s\<lparr>isLoading := True, error := None, editedImageUrl := None\<rparr>,
                Some (at_index (js_split (url img) (of_char CHR '','')) 1,
                      type (imageFile img), prompt s)))"

definition handleSubmit_resume ::
  "js_string \<Rightarrow> exn + js_string \<Rightarrow> app_state \<Rightarrow> effect list \<times> app_state" where
  "handleSubmit_resume mime settled s =
     (case settled of
        Inr newImageBase64 \<Rightarrow>
          ([], s\<lparr>editedImageUrl := Some (lit ''data:'' @ mime @ lit '';base64,'' @ newImageBase64),
                 isLoading := False\<rparr>)
      | Inl e \<Rightarrow>
          ([ConsoleError [Exn e]],
           s\<lparr>error := Some (lit ''Failed to edit image. Please try again.''),
             isLoading := False\<rparr>))"

text \<open>
  The handler run from its start to its end, with no other handler run between its halves:
  the second half starts from the state the first half left.
\<close>

definition handleSubmit_run :: "sdk \<Rightarrow> client \<Rightarrow> app_state \<Rightarrow> effect list \<times> app_state" where
  "handleSubmit_run generateContent ai s =
     (case handleSubmit s of
        (s1, None) \<Rightarrow> ([], s1)
      | (s1, Some (base64Data, mime, p)) \<Rightarrow>
          (case editImageWithGemini generateContent ai base64Data mime p of
             (fx, settled) \<Rightarrow>
               (case handleSubmit_resume mime settled s1 of
                  (fx', s2) \<Rightarrow> (fx @ fx', s2))))"

text \<open>
  The handler run with other handlers in between: \<open>others\<close> is what they do to the state
  while the request is in flight (the remove button and the file input stay enabled then),
  and the second half starts from the state they left. The MIME type it uses is the one the
  first half read.
\<close>

definition handleSubmit_during ::
  "sdk \<Rightarrow> client \<Rightarrow> (app_state \<Rightarrow> app_state) \<Rightarrow> app_state \<Rightarrow> effect list \<times> app_state" where
  "handleSubmit_during generateContent ai others s =
     (case handleSubmit s of
        (s1, None) \<Rightarrow> ([], s1)
      | (s1, Some (base64Data, mime, p)) \<Rightarrow>
          (case editImageWithGemini generateContent ai base64Data mime p of
             (fx, settled) \<Rightarrow>
               (case handleSubmit_resume mime settled (others s1) of
                  (fx', s2) \<Rightarrow> (fx @ fx', s2))))"

text \<open>
  The result panel: the image and its download link are rendered when \<open>editedImageUrl\<close> is
  truthy, the link named after the file or, failing that, \<open>image.png\<close>.
\<close>

record anchor =
  href :: js_string
  download :: js_string

definition download_link :: "app_state \<Rightarrow> anchor option" where
  "download_link s =
     (case editedImageUrl s of
        None \<Rightarrow> None
      | Some u \<Rightarrow>
          if u = [] then None
          else Some \<lparr>href = u,
                     download = lit ''edited-'' @
                       (case originalImage s of
                          None \<Rightarrow> lit ''image.png''
                        | Some img \<Rightarrow>
                            if name (imageFile img) = [] then lit ''image.png''
                            else name (imageFile img))\<rparr>)"

section \<open>Stand-ins for the network and the file reader\<close>

text \<open>
  A network that resolves every request with the same response, one that rejects every
  request with the same value, and a file reader that resolves with a given URL; the values
  the properties below are tried on.
\<close>

definition resolves :: "response \<Rightarrow> sdk" where
  "resolves r ai req = Inr r"

definition rejects :: "exn \<Rightarrow> sdk" where
  "rejects e ai req = Inl e"

definition reads_as :: "js_string \<Rightarrow> File \<Rightarrow> exn + js_string" where
  "reads_as u f = Inr u"

definition text_part :: "js_string \<Rightarrow> part" where
  "text_part t = \<lparr>inlineData = None, partText = Some t\<rparr>"

definition image_part :: "js_string \<Rightarrow> part" where
  "image_part d =
     \<lparr>inlineData = Some \<lparr>data = d, mimeType = lit ''image/png''\<rparr>, partText = None\<rparr>"

definition one_candidate :: "part list \<Rightarrow> candidate" where
  "one_candidate ps = \<lparr>content = Some \<lparr>parts = Some ps\<rparr>\<rparr>"

definition the_client :: client where
  "the_client = \<lparr>apiKey = lit ''k''\<rparr>"

definition photo :: "js_string \<Rightarrow> ImageState" where
  "photo n =
     \<lparr>imageFile = \<lparr>name = n, type = lit ''image/png''\<rparr>,
      url = lit ''data:image/png;base64,cGhvdG8=''\<rparr>"

definition ui :: "ImageState option \<Rightarrow> js_string option \<Rightarrow> js_string \<Rightarrow> app_state" where
  "ui img edited p =
     \<lparr>originalImage = img, editedImageUrl = edited, prompt = p, isLoading = False,
      error = None\<rparr>"

section \<open>Properties of the strings\<close>

lemma lit_eq_Nil: "lit s = [] \<longleftrightarrow> s = []"
  by (simp add: lit_def)

lemma dropWhile_all_iff:
  "(\<forall>x \<in> set (dropWhile P xs). P x) \<longleftrightarrow> (\<forall>x \<in> set xs. P x)"
  by (induction xs) auto

lemma trim_empty_iff: "trim s = [] \<longleftrightarrow> (\<forall>c \<in> set s. isWhiteSpace c)"
  by (simp add: trim_def dropWhile_all_iff)

lemma trim_add_a_hat: "trim (lit ''add a hat'') \<noteq> []"
  by (simp add: trim_empty_iff isWhiteSpace_def lit_def)

lemma photo_payload:
  "at_index (js_split (url (photo n)) (of_char CHR '','')) 1 = Some (lit ''cGhvdG8='')"
  by (simp add: photo_def at_index_def lit_def)

section \<open>Properties of the edit request client\<close>

lemma scan_parts_first:
  "\<forall>x \<in> set pre. inlineData x = None \<Longrightarrow> inlineData q = Some img
     \<Longrightarrow> scan_parts (pre @ q # post) = Some (data img)"
  by (induction pre) simp_all

lemma scan_parts_none:
  "\<forall>x \<in> set ps. inlineData x = None \<Longrightarrow> scan_parts ps = None"
  by (induction ps) simp_all

lemma editImageWithGemini_no_image:
  "generateContent ai (generate_request b m p) = Inr r \<Longrightarrow> scan_parts (response_parts r) = None
   \<Longrightarrow> editImageWithGemini generateContent ai b m p =
         ([GenerateContent ai (generate_request b m p),
           ConsoleError [Str (lit ''Error calling Gemini API:''),
                         Exn (Error (lit ''No image data found in the API response.''))]],
          Inl (Error (lit ''Failed to generate image with Gemini API.'')))"
  by (simp add: editImageWithGemini_def try_block_def)

lemma editImageWithGemini_rejects:
  "generateContent ai (generate_request b m p) = Inl e
   \<Longrightarrow> editImageWithGemini generateContent ai b m p =
         ([GenerateContent ai (generate_request b m p),
           ConsoleError [Str (lit ''Error calling Gemini API:''), Exn e]],
          Inl (Error (lit ''Failed to generate image with Gemini API.'')))"
  by (simp add: editImageWithGemini_def try_block_def)

lemma editImageWithGemini_image:
  "generateContent ai (generate_request b m p) = Inr r \<Longrightarrow> scan_parts (response_parts r) = Some d
   \<Longrightarrow> editImageWithGemini generateContent ai b m p =
         ([GenerateContent ai (generate_request b m p)], Inr d)"
  by (simp add: editImageWithGemini_def try_block_def)

lemma messages_differ:
  "lit ''Failed to generate image with Gemini API.'' \<noteq>
   lit ''No image data found in the API response.''"
  by (simp add: lit_def)

lemma response_parts_first_candidate:
  "candidates r = Some (c # cs) \<Longrightarrow> response_parts r = response_parts \<lparr>candidates = Some [c]\<rparr>"
  by (simp add: response_parts_def)

lemma response_parts_one_candidate:
  "response_parts \<lparr>candidates = Some (one_candidate ps # cs)\<rparr> = ps"
  by (simp add: response_parts_def one_candidate_def)

text \<open>
  Claim C1. When the parts of the response hold a part with inline image data,
  \<open>editImageWithGemini\<close> returns the data of the first such part, whatever follows it.
\<close>

theorem editImageWithGemini_first_image_part:
  assumes "generateContent ai (generate_request b m p) = Inr r"
    and "response_parts r = pre @ q # post"
    and "\<forall>x \<in> set pre. inlineData x = None"
    and "inlineData q = Some img"
  shows "editImageWithGemini generateContent ai b m p =
           ([GenerateContent ai (generate_request b m p)], Inr (data img))"
  using assms by (simp add: editImageWithGemini_image scan_parts_first)

theorem editImageWithGemini_first_image_part_witness:
  "editImageWithGemini
     (resolves \<lparr>candidates = Some [one_candidate
        [text_part (lit ''done''), image_part (lit ''Zm9v''), image_part (lit ''YmFy'')]]\<rparr>)
     the_client (Some (lit ''cGhvdG8='')) (lit ''image/png'') (lit ''add a hat'')
   = ([GenerateContent the_client
         (generate_request (Some (lit ''cGhvdG8='')) (lit ''image/png'') (lit ''add a hat''))],
      Inr (lit ''Zm9v''))"
proof -
  let ?r = "\<lparr>candidates = Some [one_candidate
              [text_part (lit ''done''), image_part (lit ''Zm9v''), image_part (lit ''YmFy'')]]\<rparr>"
  have sent: "resolves ?r the_client
      (generate_request (Some (lit ''cGhvdG8='')) (lit ''image/png'') (lit ''add a hat'')) = Inr ?r"
    by (simp add: resolves_def)
  have ps: "response_parts ?r =
      [text_part (lit ''done'')] @ image_part (lit ''Zm9v'') # [image_part (lit ''YmFy'')]"
    by (simp add: response_parts_one_candidate)
  have before: "\<forall>x \<in> set [text_part (lit ''done'')]. inlineData x = None"
    by (simp add: text_part_def)
  have found: "inlineData (image_part (lit ''Zm9v'')) =
      Some \<lparr>data = lit ''Zm9v'', mimeType = lit ''image/png''\<rparr>"
    by (simp add: image_part_def)
  from editImageWithGemini_first_image_part
    [where generateContent = "resolves ?r" and ai = the_client, OF sent ps before found]
  show ?thesis by simp
qed

text \<open>
  Claim C2. When no part of the response has inline image data, \<open>editImageWithGemini\<close> fails.
  The \<open>throw\<close> of "No image data found in the API response." stands inside the \<open>try\<close>
  block, so the function's own \<open>catch\<close> takes it: that error reaches the console only, and
  what the caller observes is "Failed to generate image with Gemini API.".
\<close>

theorem editImageWithGemini_no_image_part:
  assumes "generateContent ai (generate_request b m p) = Inr r"
    and "\<forall>x \<in> set (response_parts r). inlineData x = None"
  shows "editImageWithGemini generateContent ai b m p =
           ([GenerateContent ai (generate_request b m p),
             ConsoleError [Str (lit ''Error calling Gemini API:''),
                           Exn (Error (lit ''No image data found in the API response.''))]],
            Inl (Error (lit ''Failed to generate image with Gemini API.'')))
         \<and> snd (editImageWithGemini generateContent ai b m p) \<noteq>
             Inl (Error (lit ''No image data found in the API response.''))"
  using assms
  by (simp add: editImageWithGemini_no_image scan_parts_none messages_differ)

theorem editImageWithGemini_no_image_part_witness:
  "snd (editImageWithGemini
          (resolves \<lparr>candidates = Some [one_candidate [text_part (lit ''ok'')]]\<rparr>)
          the_client (Some (lit ''cGhvdG8='')) (lit ''image/png'') (lit ''add a hat''))
   = Inl (Error (lit ''Failed to generate image with Gemini API.''))
   \<and> snd (editImageWithGemini
          (resolves \<lparr>candidates = Some [one_candidate [text_part (lit ''ok'')]]\<rparr>)
          the_client (Some (lit ''cGhvdG8='')) (lit ''image/png'') (lit ''add a hat''))
   \<noteq> Inl (Error (lit ''No image data found in the API response.''))"
proof -
  let ?r = "\<lparr>candidates = Some [one_candidate [text_part (lit ''ok'')]]\<rparr>"
  have sent: "resolves ?r the_client
      (generate_request (Some (lit ''cGhvdG8='')) (lit ''image/png'') (lit ''add a hat'')) = Inr ?r"
    by (simp add: resolves_def)
  have none: "\<forall>x \<in> set (response_parts ?r). inlineData x = None"
    by (simp add: response_parts_one_candidate text_part_def)
  from editImageWithGemini_no_image_part
    [where generateContent = "resolves ?r" and ai = the_client, OF sent none]
  show ?thesis by (simp add: messages_differ)
qed

text \<open>
  Claim C9. Only the first candidate is scanned: the result is that of the response cut
  down to its first candidate, and when that candidate has no part with inline image data
  the call fails as for a response with no image part, whatever the later candidates hold.
\<close>

theorem editImageWithGemini_only_first_candidate:
  assumes "generateContent ai (generate_request b m p) = Inr r"
    and "candidates r = Some (c # cs)"
  shows "editImageWithGemini generateContent ai b m p =
           editImageWithGemini (resolves \<lparr>candidates = Some [c]\<rparr>) ai b m p
         \<and> ((\<forall>x \<in> set (response_parts \<lparr>candidates = Some [c]\<rparr>). inlineData x = None) \<longrightarrow>
              editImageWithGemini generateContent ai b m p =
                ([GenerateContent ai (generate_request b m p),
                  ConsoleError [Str (lit ''Error calling Gemini API:''),
                                Exn (Error (lit ''No image data found in the API response.''))]],
                 Inl (Error (lit ''Failed to generate image with Gemini API.''))))"
proof (intro conjI impI)
  have same: "response_parts r = response_parts \<lparr>candidates = Some [c]\<rparr>"
    using assms(2) by (rule response_parts_first_candidate)
  show "editImageWithGemini generateContent ai b m p =
          editImageWithGemini (resolves \<lparr>candidates = Some [c]\<rparr>) ai b m p"
    using assms(1) same by (simp add: editImageWithGemini_def try_block_def resolves_def)
  assume "\<forall>x \<in> set (response_parts \<lparr>candidates = Some [c]\<rparr>). inlineData x = None"
  then have "scan_parts (response_parts r) = None"
    using same by (simp add: scan_parts_none)
  with assms(1) show "editImageWithGemini generateContent ai b m p =
      ([GenerateContent ai (generate_request b m p),
        ConsoleError [Str (lit ''Error calling Gemini API:''),
                      Exn (Error (lit ''No image data found in the API response.''))]],
       Inl (Error (lit ''Failed to generate image with Gemini API.'')))"
    by (rule editImageWithGemini_no_image)
qed

theorem editImageWithGemini_only_first_candidate_witness:
  "editImageWithGemini
     (resolves \<lparr>candidates = Some [one_candidate [text_part (lit ''ok'')],
                                   one_candidate [image_part (lit ''Zm9v'')]]\<rparr>)
     the_client (Some (lit ''cGhvdG8='')) (lit ''image/png'') (lit ''add a hat'')
   = ([GenerateContent the_client
         (generate_request (Some (lit ''cGhvdG8='')) (lit ''image/png'') (lit ''add a hat'')),
       ConsoleError [Str (lit ''Error calling Gemini API:''),
                     Exn (Error (lit ''No image data found in the API response.''))]],
      Inl (Error (lit ''Failed to generate image with Gemini API.'')))"
proof -
  let ?c = "one_candidate [text_part (lit ''ok'')]"
  let ?cs = "[one_candidate [image_part (lit ''Zm9v'')]]"
  let ?r = "\<lparr>candidates = Some (?c # ?cs)\<rparr>"
  have sent: "resolves ?r the_client
      (generate_request (Some (lit ''cGhvdG8='')) (lit ''image/png'') (lit ''add a hat'')) = Inr ?r"
    by (simp add: resolves_def)
  have cands: "candidates ?r = Some (?c # ?cs)"
    by simp
  have first: "\<forall>x \<in> set (response_parts \<lparr>candidates = Some [?c]\<rparr>). inlineData x = None"
    by (simp add: response_parts_one_candidate text_part_def)
  from editImageWithGemini_only_first_candidate
    [where generateContent = "resolves ?r" and ai = the_client, OF sent cands] first
  show ?thesis by blast
qed

text \<open>
  Claim C10. When \<open>candidates\<close>, the first candidate, its \<open>content\<close> or its \<open>parts\<close> is
  missing, the scan runs over the empty list: what the \<open>catch\<close> receives is the error
  thrown after the loop, not a \<open>TypeError\<close> of a property read, and the call fails through
  the error path.
\<close>

theorem editImageWithGemini_absent_fields:
  assumes "generateContent ai (generate_request b m p) = Inr r"
    and "candidates r = None \<or> candidates r = Some [] \<or>
         (\<exists>c cs. candidates r = Some (c # cs) \<and>
            (content c = None \<or> (\<exists>ct. content c = Some ct \<and> parts ct = None)))"
  shows "response_parts r = []
         \<and> editImageWithGemini generateContent ai b m p =
             ([GenerateContent ai (generate_request b m p),
               ConsoleError [Str (lit ''Error calling Gemini API:''),
                             Exn (Error (lit ''No image data found in the API response.''))]],
              Inl (Error (lit ''Failed to generate image with Gemini API.'')))"
proof -
  from assms(2) have empty: "response_parts r = []"
    by (auto simp: response_parts_def)
  then have "scan_parts (response_parts r) = None"
    by simp
  with assms(1) empty show ?thesis
    by (simp add: editImageWithGemini_no_image)
qed

theorem editImageWithGemini_absent_fields_witness:
  "editImageWithGemini (resolves \<lparr>candidates = None\<rparr>)
     the_client (Some (lit ''cGhvdG8='')) (lit ''image/png'') (lit ''add a hat'')
   = ([GenerateContent the_client
         (generate_request (Some (lit ''cGhvdG8='')) (lit ''image/png'') (lit ''add a hat'')),
       ConsoleError [Str (lit ''Error calling Gemini API:''),
                     Exn (Error (lit ''No image data found in the API response.''))]],
      Inl (Error (lit ''Failed to generate image with Gemini API.'')))
   \<and> snd (editImageWithGemini (resolves \<lparr>candidates = Some []\<rparr>)
       the_client (Some (lit ''cGhvdG8='')) (lit ''image/png'') (lit ''add a hat''))
       = Inl (Error (lit ''Failed to generate image with Gemini API.''))
   \<and> snd (editImageWithGemini (resolves \<lparr>candidates = Some [\<lparr>content = None\<rparr>]\<rparr>)
       the_client (Some (lit ''cGhvdG8='')) (lit ''image/png'') (lit ''add a hat''))
       = Inl (Error (lit ''Failed to generate image with Gemini API.''))
   \<and> snd (editImageWithGemini
         (resolves \<lparr>candidates = Some [\<lparr>content = Some \<lparr>parts = None\<rparr>\<rparr>]\<rparr>)
       the_client (Some (lit ''cGhvdG8='')) (lit ''image/png'') (lit ''add a hat''))
       = Inl (Error (lit ''Failed to generate image with Gemini API.''))"
proof -
  let ?req = "generate_request (Some (lit ''cGhvdG8='')) (lit ''image/png'') (lit ''add a hat'')"
  have sent: "resolves r the_client ?req = Inr r" for r
    by (simp add: resolves_def)
  have absent: "candidates r = None \<or> candidates r = Some [] \<or>
      (\<exists>c cs. candidates r = Some (c # cs) \<and>
         (content c = None \<or> (\<exists>ct. content c = Some ct \<and> parts ct = None)))
    \<Longrightarrow> editImageWithGemini (resolves r) the_client
          (Some (lit ''cGhvdG8='')) (lit ''image/png'') (lit ''add a hat'')
        = ([GenerateContent the_client ?req,
            ConsoleError [Str (lit ''Error calling Gemini API:''),
                          Exn (Error (lit ''No image data found in the API response.''))]],
           Inl (Error (lit ''Failed to generate image with Gemini API.'')))" for r
    using editImageWithGemini_absent_fields
      [where generateContent = "resolves r" and ai = the_client, OF sent] by blast
  have a: "editImageWithGemini (resolves \<lparr>candidates = None\<rparr>)
      the_client (Some (lit ''cGhvdG8='')) (lit ''image/png'') (lit ''add a hat'')
    = ([GenerateContent the_client ?req,
        ConsoleError [Str (lit ''Error calling Gemini API:''),
                      Exn (Error (lit ''No image data found in the API response.''))]],
       Inl (Error (lit ''Failed to generate image with Gemini API.'')))"
    using absent [of "\<lparr>candidates = None\<rparr>"] by simp
  have b: "snd (editImageWithGemini (resolves \<lparr>candidates = Some []\<rparr>)
       the_client (Some (lit ''cGhvdG8='')) (lit ''image/png'') (lit ''add a hat''))
       = Inl (Error (lit ''Failed to generate image with Gemini API.''))"
    using absent [of "\<lparr>candidates = Some []\<rparr>"] by simp
  have c: "snd (editImageWithGemini (resolves \<lparr>candidates = Some [\<lparr>content = None\<rparr>]\<rparr>)
       the_client (Some (lit ''cGhvdG8='')) (lit ''image/png'') (lit ''add a hat''))
       = Inl (Error (lit ''Failed to generate image with Gemini API.''))"
    using absent [of "\<lparr>candidates = Some [\<lparr>content = None\<rparr>]\<rparr>"] by simp
  have d: "snd (editImageWithGemini
         (resolves \<lparr>candidates = Some [\<lparr>content = Some \<lparr>parts = None\<rparr>\<rparr>]\<rparr>)
       the_client (Some (lit ''cGhvdG8='')) (lit ''image/png'') (lit ''add a hat''))
       = Inl (Error (lit ''Failed to generate image with Gemini API.''))"
    using absent [of "\<lparr>candidates = Some [\<lparr>content = Some \<lparr>parts = None\<rparr>\<rparr>]\<rparr>"] by simp
  from a b c d show ?thesis
    by (intro conjI)
qed

section \<open>Properties of the component\<close>

text \<open>
  Claim C3. With no image loaded, or a prompt that is empty or all white space,
  \<open>handleSubmit\<close> stops at its validation: it yields no call, so the run sends no request,
  and the state it leaves is the old one with the validation message as its error. The
  loaded image and the edited result are as before.
\<close>

theorem handleSubmit_blocked:
  assumes "originalImage s = None \<or> (\<forall>c \<in> set (prompt s). isWhiteSpace c)"
  shows "handleSubmit_run generateContent ai s =
           ([], s\<lparr>error := Some (lit ''Please upload an image and enter a prompt.'')\<rparr>)
         \<and> snd (handleSubmit s) = None
         \<and> originalImage (snd (handleSubmit_run generateContent ai s)) = originalImage s
         \<and> editedImageUrl (snd (handleSubmit_run generateContent ai s)) = editedImageUrl s"
proof -
  have "handleSubmit s =
          (s\<lparr>error := Some (lit ''Please upload an image and enter a prompt.'')\<rparr>, None)"
    using assms by (auto simp: handleSubmit_def trim_empty_iff split: option.splits)
  then show ?thesis
    by (simp add: handleSubmit_run_def)
qed

theorem handleSubmit_blocked_witness:
  "handleSubmit_run (rejects (Error (lit ''offline''))) the_client
     (ui (Some (photo (lit ''photo.png''))) (Some (lit ''data:image/png;base64,b2xk'')) [])
   = ([], (ui (Some (photo (lit ''photo.png''))) (Some (lit ''data:image/png;base64,b2xk'')) [])
            \<lparr>error := Some (lit ''Please upload an image and enter a prompt.'')\<rparr>)
   \<and> handleSubmit_run (rejects (Error (lit ''offline''))) the_client
       (ui (Some (photo (lit ''photo.png''))) None [32, 9, 10])
     = ([], (ui (Some (photo (lit ''photo.png''))) None [32, 9, 10])
              \<lparr>error := Some (lit ''Please upload an image and enter a prompt.'')\<rparr>)
   \<and> handleSubmit_run (rejects (Error (lit ''offline''))) the_client
       (ui None None (lit ''add a hat''))
     = ([], (ui None None (lit ''add a hat''))
              \<lparr>error := Some (lit ''Please upload an image and enter a prompt.'')\<rparr>)"
proof -
  have empty: "originalImage (ui (Some (photo (lit ''photo.png'')))
        (Some (lit ''data:image/png;base64,b2xk'')) []) = None
      \<or> (\<forall>c \<in> set (prompt (ui (Some (photo (lit ''photo.png'')))
        (Some (lit ''data:image/png;base64,b2xk'')) [])). isWhiteSpace c)"
    by (simp add: ui_def)
  have blank: "originalImage (ui (Some (photo (lit ''photo.png''))) None [32, 9, 10]) = None
      \<or> (\<forall>c \<in> set (prompt (ui (Some (photo (lit ''photo.png''))) None [32, 9, 10])).
            isWhiteSpace c)"
    by (simp add: ui_def isWhiteSpace_def)
  have no_image: "originalImage (ui None None (lit ''add a hat'')) = None
      \<or> (\<forall>c \<in> set (prompt (ui None None (lit ''add a hat''))). isWhiteSpace c)"
    by (simp add: ui_def)
  from handleSubmit_blocked [OF empty] handleSubmit_blocked [OF blank]
    handleSubmit_blocked [OF no_image]
  show ?thesis by blast
qed

text \<open>
  Claim C5. For a file whose type does not start with \<open>image/\<close>, \<open>handleFileChange\<close> sets the
  error message and returns: no read is started, and the loaded image, the edited result and
  the prompt are as before.
\<close>

theorem handleFileChange_invalid_type:
  assumes "\<not> startsWith (type f) (lit ''image/'')"
  shows "handleFileChange_run fileToBase64 (Some f) s =
           s\<lparr>error := Some (lit ''Please upload a valid image file (PNG, JPG, etc.).'')\<rparr>
         \<and> snd (handleFileChange (Some f) s) = None
         \<and> originalImage (handleFileChange_run fileToBase64 (Some f) s) = originalImage s
         \<and> editedImageUrl (handleFileChange_run fileToBase64 (Some f) s) = editedImageUrl s
         \<and> prompt (handleFileChange_run fileToBase64 (Some f) s) = prompt s"
  using assms by (simp add: handleFileChange_run_def handleFileChange_def)

theorem handleFileChange_invalid_type_witness:
  "handleFileChange_run (reads_as (lit ''data:text/plain;base64,bm90ZXM=''))
     (Some \<lparr>name = lit ''notes.txt'', type = lit ''text/plain''\<rparr>)
     (ui (Some (photo (lit ''photo.png''))) (Some (lit ''data:image/png;base64,Zm9v''))
        (lit ''add a hat''))
   = (ui (Some (photo (lit ''photo.png''))) (Some (lit ''data:image/png;base64,Zm9v''))
        (lit ''add a hat''))
       \<lparr>error := Some (lit ''Please upload a valid image file (PNG, JPG, etc.).'')\<rparr>"
proof -
  have plain: "\<not> startsWith (type \<lparr>name = lit ''notes.txt'', type = lit ''text/plain''\<rparr>)
      (lit ''image/'')"
    by (simp add: startsWith_def lit_def)
  from handleFileChange_invalid_type [OF plain]
  show ?thesis by blast
qed

text \<open>
  Claim C6. From every state, choosing a file of an image type clears the edited result in
  the handler's first half, and when the read resolves the run ends with the new image
  loaded and no edited result; and every submission that passes validation clears the
  edited result as the request starts. The state is arbitrary, so this holds in every state
  the component can reach.
\<close>

theorem editedImageUrl_cleared:
  "(startsWith (type f) (lit ''image/'') \<longrightarrow>
      editedImageUrl (fst (handleFileChange (Some f) s)) = None
      \<and> snd (handleFileChange (Some f) s) = Some f
      \<and> (fileToBase64 f = Inr u \<longrightarrow>
           handleFileChange_run fileToBase64 (Some f) s =
             s\<lparr>error := None, editedImageUrl := None,
               originalImage := Some \<lparr>imageFile = f, url = u\<rparr>\<rparr>))
   \<and> (originalImage s \<noteq> None \<and> trim (prompt s) \<noteq> [] \<longrightarrow>
      editedImageUrl (fst (handleSubmit s)) = None
      \<and> isLoading (fst (handleSubmit s))
      \<and> snd (handleSubmit s) \<noteq> None)"
  by (auto simp: handleFileChange_def handleFileChange_run_def handleFileChange_resume_def
      handleSubmit_def)

theorem editedImageUrl_cleared_witness:
  "handleFileChange_run (reads_as (lit ''data:image/jpeg;base64,Y2F0''))
     (Some \<lparr>name = lit ''cat.jpg'', type = lit ''image/jpeg''\<rparr>)
     (ui None (Some (lit ''data:image/png;base64,Zm9v'')) (lit ''add a hat''))
   = ui (Some \<lparr>imageFile = \<lparr>name = lit ''cat.jpg'', type = lit ''image/jpeg''\<rparr>,
                url = lit ''data:image/jpeg;base64,Y2F0''\<rparr>)
        None (lit ''add a hat'')
   \<and> editedImageUrl (fst (handleSubmit
         (ui (Some (photo (lit ''photo.png''))) (Some (lit ''data:image/png;base64,Zm9v''))
            (lit ''add a hat'')))) = None"
proof -
  let ?cat = "\<lparr>name = lit ''cat.jpg'', type = lit ''image/jpeg''\<rparr>"
  let ?s = "ui None (Some (lit ''data:image/png;base64,Zm9v'')) (lit ''add a hat'')"
  let ?t = "ui (Some (photo (lit ''photo.png''))) (Some (lit ''data:image/png;base64,Zm9v''))
              (lit ''add a hat'')"
  have image: "startsWith (type ?cat) (lit ''image/'')"
    by (simp add: startsWith_def lit_def)
  have read: "reads_as (lit ''data:image/jpeg;base64,Y2F0'') ?cat =
      Inr (lit ''data:image/jpeg;base64,Y2F0'')"
    by (simp add: reads_as_def)
  have valid: "originalImage ?t \<noteq> None \<and> trim (prompt ?t) \<noteq> []"
    by (simp add: ui_def trim_add_a_hat)
  from editedImageUrl_cleared
    [of ?cat ?s "reads_as (lit ''data:image/jpeg;base64,Y2F0'')"
      "lit ''data:image/jpeg;base64,Y2F0''"] image read
  have chosen: "handleFileChange_run (reads_as (lit ''data:image/jpeg;base64,Y2F0''))
      (Some ?cat) ?s =
      ?s\<lparr>error := None, editedImageUrl := None,
         originalImage := Some \<lparr>imageFile = ?cat, url = lit ''data:image/jpeg;base64,Y2F0''\<rparr>\<rparr>"
    by blast
  from editedImageUrl_cleared
    [of ?cat ?t "reads_as (lit ''data:image/jpeg;base64,Y2F0'')"
      "lit ''data:image/jpeg;base64,Y2F0''"] valid
  have started: "editedImageUrl (fst (handleSubmit ?t)) = None"
    by blast
  from chosen started show ?thesis
    by (simp add: ui_def)
qed

text \<open>
  Claim C7. When the network call of a submission rejects, the client logs the rejection and
  throws "Failed to generate image with Gemini API."; \<open>handleSubmit\<close> logs that error and
  ends with the message "Failed to edit image. Please try again." shown, loading cleared and
  no edited image, so no download link.
\<close>

theorem handleSubmit_network_rejects:
  assumes "originalImage s = Some img"
    and "trim (prompt s) \<noteq> []"
    and "req = generate_request (at_index (js_split (url img) (of_char CHR '','')) 1)
                 (type (imageFile img)) (prompt s)"
    and "generateContent ai req = Inl e"
  shows "handleSubmit_run generateContent ai s =
           ([GenerateContent ai req,
             ConsoleError [Str (lit ''Error calling Gemini API:''), Exn e],
             ConsoleError [Exn (Error (lit ''Failed to generate image with Gemini API.''))]],
            s\<lparr>isLoading := False,
              error := Some (lit ''Failed to edit image. Please try again.''),
              editedImageUrl := None\<rparr>)
         \<and> download_link (snd (handleSubmit_run generateContent ai s)) = None"
proof -
  define b where "b = at_index (js_split (url img) (of_char CHR '','')) 1"
  have start: "handleSubmit s =
      (s\<lparr>isLoading := True, error := None, editedImageUrl := None\<rparr>,
       Some (b, type (imageFile img), prompt s))"
    using assms(1,2) unfolding b_def by (simp add: handleSubmit_def)
  have call: "editImageWithGemini generateContent ai b (type (imageFile img)) (prompt s) =
      ([GenerateContent ai req, ConsoleError [Str (lit ''Error calling Gemini API:''), Exn e]],
       Inl (Error (lit ''Failed to generate image with Gemini API.'')))"
    using assms(3) [folded b_def] assms(4) by (simp add: editImageWithGemini_rejects)
  show ?thesis
    by (simp add: handleSubmit_run_def start call handleSubmit_resume_def download_link_def)
qed

theorem handleSubmit_network_rejects_witness:
  "handleSubmit_run (rejects (TypeError (lit ''Failed to fetch''))) the_client
     (ui (Some (photo (lit ''photo.png''))) (Some (lit ''data:image/png;base64,b2xk''))
        (lit ''add a hat''))
   = ([GenerateContent the_client
         (generate_request (Some (lit ''cGhvdG8='')) (lit ''image/png'') (lit ''add a hat'')),
       ConsoleError [Str (lit ''Error calling Gemini API:''),
                     Exn (TypeError (lit ''Failed to fetch''))],
       ConsoleError [Exn (Error (lit ''Failed to generate image with Gemini API.''))]],
      (ui (Some (photo (lit ''photo.png''))) None (lit ''add a hat''))
        \<lparr>error := Some (lit ''Failed to edit image. Please try again.'')\<rparr>)"
proof -
  let ?s = "ui (Some (photo (lit ''photo.png''))) (Some (lit ''data:image/png;base64,b2xk''))
              (lit ''add a hat'')"
  let ?req = "generate_request (Some (lit ''cGhvdG8='')) (lit ''image/png'') (lit ''add a hat'')"
  have loaded: "originalImage ?s = Some (photo (lit ''photo.png''))"
    by (simp add: ui_def)
  have typed: "trim (prompt ?s) \<noteq> []"
    by (simp add: ui_def trim_add_a_hat)
  have req: "?req = generate_request
      (at_index (js_split (url (photo (lit ''photo.png''))) (of_char CHR '','')) 1)
      (type (imageFile (photo (lit ''photo.png'')))) (prompt ?s)"
    unfolding photo_payload by (simp add: ui_def photo_def)
  have rejected: "rejects (TypeError (lit ''Failed to fetch'')) the_client ?req =
      Inl (TypeError (lit ''Failed to fetch''))"
    by (simp add: rejects_def)
  from handleSubmit_network_rejects
    [where generateContent = "rejects (TypeError (lit ''Failed to fetch''))" and ai = the_client,
      OF loaded typed req rejected]
  show ?thesis by (simp add: ui_def)
qed

lemma handleSubmit_run_during:
  "handleSubmit_run generateContent ai s = handleSubmit_during generateContent ai (\<lambda>t. t) s"
  by (simp add: handleSubmit_run_def handleSubmit_during_def)

text \<open>
  Claim C4, amended. When the edit request of a submission succeeds with payload \<open>d\<close>,
  whatever other handlers did to the state while it was in flight, the edited result is
  \<open>data:<type>;base64,<d>\<close> with the type of the file that was loaded at submission, and the
  download link is named after the image loaded when the request settles:
  \<open>edited-<name of its file>\<close>, or \<open>edited-image.png\<close> when no image is loaded then or the
  name is empty. With nothing in between that image is the submitted one; in the scenario
  the result is \<open>data:image/png;base64,Zm9v\<close> and the link \<open>edited-photo.png\<close>.
\<close>

theorem handleSubmit_success:
  assumes "originalImage s = Some img"
    and "trim (prompt s) \<noteq> []"
    and "snd (editImageWithGemini generateContent ai
               (at_index (js_split (url img) (of_char CHR '','')) 1)
               (type (imageFile img)) (prompt s)) = Inr d"
  shows "snd (handleSubmit_during generateContent ai others s) =
           (others (s\<lparr>isLoading := True, error := None, editedImageUrl := None\<rparr>))
             \<lparr>editedImageUrl :=
                Some (lit ''data:'' @ type (imageFile img) @ lit '';base64,'' @ d),
              isLoading := False\<rparr>
         \<and> download_link (snd (handleSubmit_during generateContent ai others s)) =
             Some \<lparr>href = lit ''data:'' @ type (imageFile img) @ lit '';base64,'' @ d,
                   download = lit ''edited-'' @
                     (case originalImage
                             (others (s\<lparr>isLoading := True, error := None,
                                        editedImageUrl := None\<rparr>)) of
                        None \<Rightarrow> lit ''image.png''
                      | Some now \<Rightarrow>
                          if name (imageFile now) = [] then lit ''image.png''
                          else name (imageFile now))\<rparr>
         \<and> snd (handleSubmit_run generateContent ai s) =
             s\<lparr>isLoading := False, error := None,
               editedImageUrl :=
                 Some (lit ''data:'' @ type (imageFile img) @ lit '';base64,'' @ d)\<rparr>
         \<and> download_link (snd (handleSubmit_run generateContent ai s)) =
             Some \<lparr>href = lit ''data:'' @ type (imageFile img) @ lit '';base64,'' @ d,
                   download = lit ''edited-'' @
                     (if name (imageFile img) = [] then lit ''image.png''
                      else name (imageFile img))\<rparr>"
proof -
  define b where "b = at_index (js_split (url img) (of_char CHR '','')) 1"
  have start: "handleSubmit s =
      (s\<lparr>isLoading := True, error := None, editedImageUrl := None\<rparr>,
       Some (b, type (imageFile img), prompt s))"
    using assms(1,2) unfolding b_def by (simp add: handleSubmit_def)
  obtain fx where call:
    "editImageWithGemini generateContent ai b (type (imageFile img)) (prompt s) = (fx, Inr d)"
    using assms(3) [folded b_def] by (cases "editImageWithGemini generateContent ai b
      (type (imageFile img)) (prompt s)") simp
  have during: "snd (handleSubmit_during generateContent ai others s) =
      (others (s\<lparr>isLoading := True, error := None, editedImageUrl := None\<rparr>))
        \<lparr>editedImageUrl := Some (lit ''data:'' @ type (imageFile img) @ lit '';base64,'' @ d),
         isLoading := False\<rparr>"
    by (simp add: handleSubmit_during_def start call handleSubmit_resume_def)
  have link: "download_link (snd (handleSubmit_during generateContent ai others s)) =
      Some \<lparr>href = lit ''data:'' @ type (imageFile img) @ lit '';base64,'' @ d,
            download = lit ''edited-'' @
              (case originalImage
                      (others (s\<lparr>isLoading := True, error := None, editedImageUrl := None\<rparr>)) of
                 None \<Rightarrow> lit ''image.png''
               | Some now \<Rightarrow>
                   if name (imageFile now) = [] then lit ''image.png''
                   else name (imageFile now))\<rparr>"
    unfolding during by (simp add: download_link_def lit_eq_Nil)
  have run: "snd (handleSubmit_run generateContent ai s) =
      s\<lparr>isLoading := False, error := None,
        editedImageUrl := Some (lit ''data:'' @ type (imageFile img) @ lit '';base64,'' @ d)\<rparr>"
    by (simp add: handleSubmit_run_def start call handleSubmit_resume_def)
  have run_link: "download_link (snd (handleSubmit_run generateContent ai s)) =
      Some \<lparr>href = lit ''data:'' @ type (imageFile img) @ lit '';base64,'' @ d,
            download = lit ''edited-'' @
              (if name (imageFile img) = [] then lit ''image.png''
               else name (imageFile img))\<rparr>"
    unfolding run using assms(1) by (simp add: download_link_def lit_eq_Nil)
  from during link run run_link show ?thesis
    by (intro conjI)
qed

lemma photo_edit_succeeds:
  "editImageWithGemini (resolves \<lparr>candidates = Some [one_candidate [image_part d]]\<rparr>)
     the_client (Some (lit ''cGhvdG8='')) (lit ''image/png'') (lit ''add a hat'')
   = ([GenerateContent the_client
        (generate_request (Some (lit ''cGhvdG8='')) (lit ''image/png'') (lit ''add a hat''))],
      Inr d)"
  by (simp add: editImageWithGemini_def try_block_def resolves_def response_parts_def
      one_candidate_def image_part_def)

lemma photo_submit:
  "handleSubmit (ui (Some (photo n)) edited (lit ''add a hat'')) =
     ((ui (Some (photo n)) None (lit ''add a hat''))\<lparr>isLoading := True\<rparr>,
      Some (Some (lit ''cGhvdG8=''), lit ''image/png'', lit ''add a hat''))"
  using trim_add_a_hat photo_payload [of n] by (simp add: handleSubmit_def ui_def photo_def)

text \<open>
  The scenario, twice: with nothing in between, and with a second photo chosen after the
  first was removed while the request was in flight. The result keeps the type of the
  submitted file; the link takes the name of the image loaded when the request settles.
\<close>

theorem handleSubmit_success_witness:
  "download_link (snd (handleSubmit_run
     (resolves \<lparr>candidates = Some [one_candidate [image_part (lit ''Zm9v'')]]\<rparr>) the_client
     (ui (Some (photo (lit ''photo.png''))) None (lit ''add a hat''))))
   = Some \<lparr>href = lit ''data:image/png;base64,Zm9v'', download = lit ''edited-photo.png''\<rparr>
   \<and> download_link (snd (handleSubmit_during
     (resolves \<lparr>candidates = Some [one_candidate [image_part (lit ''Zm9v'')]]\<rparr>) the_client
     (\<lambda>t. handleFileChange_resume \<lparr>name = lit ''cat.jpg'', type = lit ''image/jpeg''\<rparr>
            (Inr (lit ''data:image/jpeg;base64,Y2F0'')) (handleRemoveImage t))
     (ui (Some (photo (lit ''photo.png''))) None (lit ''add a hat''))))
   = Some \<lparr>href = lit ''data:image/png;base64,Zm9v'', download = lit ''edited-cat.jpg''\<rparr>"
proof -
  let ?s = "ui (Some (photo (lit ''photo.png''))) None (lit ''add a hat'')"
  let ?g = "resolves \<lparr>candidates = Some [one_candidate [image_part (lit ''Zm9v'')]]\<rparr>"
  let ?others = "\<lambda>t. handleFileChange_resume \<lparr>name = lit ''cat.jpg'', type = lit ''image/jpeg''\<rparr>
      (Inr (lit ''data:image/jpeg;base64,Y2F0'')) (handleRemoveImage t)"
  have loaded: "originalImage ?s = Some (photo (lit ''photo.png''))"
    by (simp add: ui_def)
  have typed: "trim (prompt ?s) \<noteq> []"
    by (simp add: ui_def trim_add_a_hat)
  have ok: "snd (editImageWithGemini ?g the_client
               (at_index (js_split (url (photo (lit ''photo.png''))) (of_char CHR '','')) 1)
               (type (imageFile (photo (lit ''photo.png'')))) (prompt ?s)) = Inr (lit ''Zm9v'')"
    unfolding photo_payload by (simp add: ui_def photo_def photo_edit_succeeds)
  note success = handleSubmit_success [OF loaded typed ok]
  from success [of "\<lambda>t. t", THEN conjunct2, THEN conjunct2, THEN conjunct2]
  have glued: "download_link (snd (handleSubmit_run ?g the_client ?s)) =
      Some \<lparr>href = lit ''data:image/png;base64,Zm9v'', download = lit ''edited-photo.png''\<rparr>"
    by (simp add: photo_def lit_def)
  from success [of ?others, THEN conjunct2, THEN conjunct1]
  have swapped: "download_link (snd (handleSubmit_during ?g the_client ?others ?s)) =
      Some \<lparr>href = lit ''data:image/png;base64,Zm9v'', download = lit ''edited-cat.jpg''\<rparr>"
    by (simp add: handleFileChange_resume_def handleRemoveImage_def photo_def lit_def)
  from glued swapped show ?thesis
    by (intro conjI)
qed

text \<open>
  The photo is removed while the request is in flight: when the result arrives no image is
  loaded, and the link is named \<open>edited-image.png\<close>, not \<open>edited-photo.png\<close>.
\<close>

theorem download_name_counterexample:
  "map_option download (download_link (snd (handleSubmit_during
     (resolves \<lparr>candidates = Some [one_candidate [image_part (lit ''Zm9v'')]]\<rparr>) the_client
     handleRemoveImage
     (ui (Some (photo (lit ''photo.png''))) None (lit ''add a hat'')))))
   = Some (lit ''edited-image.png'')
   \<and> lit ''edited-image.png'' \<noteq> lit ''edited-'' @ name (imageFile (photo (lit ''photo.png'')))"
proof -
  let ?s = "ui (Some (photo (lit ''photo.png''))) None (lit ''add a hat'')"
  let ?g = "resolves \<lparr>candidates = Some [one_candidate [image_part (lit ''Zm9v'')]]\<rparr>"
  have run: "snd (handleSubmit_during ?g the_client handleRemoveImage ?s) =
      (ui None (Some (lit ''data:'' @ lit ''image/png'' @ lit '';base64,'' @ lit ''Zm9v''))
         (lit ''add a hat''))"
    unfolding handleSubmit_during_def photo_submit
    by (simp add: photo_edit_succeeds handleSubmit_resume_def handleRemoveImage_def ui_def)
  have name: "lit ''edited-image.png'' \<noteq>
      lit ''edited-'' @ name (imageFile (photo (lit ''photo.png'')))"
    by (simp add: photo_def lit_def)
  have link: "map_option download
      (download_link (snd (handleSubmit_during ?g the_client handleRemoveImage ?s))) =
      Some (lit ''edited-image.png'')"
    unfolding run by (simp add: download_link_def ui_def lit_eq_Nil) (simp add: lit_def)
  from link name show ?thesis
    by (intro conjI)
qed

text \<open>
  The other branch of \<open>name || 'image.png'\<close>: a file whose name is the empty string, still
  loaded when the result arrives, also gives \<open>edited-image.png\<close>.
\<close>

lemma download_name_empty_file_name:
  "map_option download (download_link (snd (handleSubmit_run
     (resolves \<lparr>candidates = Some [one_candidate [image_part (lit ''Zm9v'')]]\<rparr>) the_client
     (ui (Some (photo [])) None (lit ''add a hat'')))))
   = Some (lit ''edited-image.png'')"
proof -
  let ?s = "ui (Some (photo [])) None (lit ''add a hat'')"
  let ?g = "resolves \<lparr>candidates = Some [one_candidate [image_part (lit ''Zm9v'')]]\<rparr>"
  have run: "snd (handleSubmit_run ?g the_client ?s) =
      ?s\<lparr>editedImageUrl := Some (lit ''data:'' @ lit ''image/png'' @ lit '';base64,'' @ lit ''Zm9v'')\<rparr>"
    unfolding handleSubmit_run_def photo_submit
    by (simp add: photo_edit_succeeds handleSubmit_resume_def ui_def)
  show ?thesis
    unfolding run by (simp add: download_link_def ui_def photo_def lit_eq_Nil) (simp add: lit_def)
qed

section \<open>Properties of the module\<close>

lemma editImageWithGemini_effects:
  "fst (editImageWithGemini g ai b m p) = [GenerateContent ai (generate_request b m p)]
   \<or> (\<exists>e. fst (editImageWithGemini g ai b m p) =
          [GenerateContent ai (generate_request b m p),
           ConsoleError [Str (lit ''Error calling Gemini API:''), Exn e]])"
  by (cases "try_block g ai b m p") (simp_all add: editImageWithGemini_def)

lemma call_all_no_construction: "filter is_construction (call_all ai cs) = []"
proof (induction cs)
  case Nil
  show ?case by simp
next
  case (Cons c cs)
  obtain g b m p where c: "c = (g, b, m, p)"
    by (cases c)
  from editImageWithGemini_effects [of g ai b m p]
  have "filter is_construction (fst (editImageWithGemini g ai b m p)) = []"
    by (elim disjE exE) simp_all
  with Cons c show ?case by simp
qed

lemma call_all_client:
  "fx \<in> set (call_all ai cs) \<Longrightarrow> request_client fx = Some c \<Longrightarrow> c = ai"
proof (induction cs)
  case Nil
  then show ?case by simp
next
  case (Cons x cs)
  obtain g b m p where x: "x = (g, b, m, p)"
    by (cases x)
  from Cons.prems(1) x
  consider "fx \<in> set (fst (editImageWithGemini g ai b m p))" | "fx \<in> set (call_all ai cs)"
    by auto
  then show ?case
  proof cases
    case 1
    with editImageWithGemini_effects [of g ai b m p] Cons.prems(2) show ?thesis
      by (elim disjE exE) auto
  next
    case 2
    with Cons show ?thesis by simp
  qed
qed

text \<open>
  Claim C8, amended. When \<open>API_KEY\<close> is missing or the empty string, the module body throws
  and nothing else happens: no client, no request. When it is a non-empty string, the run
  constructs the client with it, first and once, and every request of every later call goes
  through that client.
\<close>

theorem module_init_client:
  "(API_KEY = None \<or> API_KEY = Some [] \<longrightarrow>
      run_module API_KEY cs =
        ([], Some (Error (lit ''API_KEY environment variable not set.''))))
   \<and> (API_KEY = Some k \<and> k \<noteq> [] \<longrightarrow>
        run_module API_KEY cs = (NewGoogleGenAI k # call_all \<lparr>apiKey = k\<rparr> cs, None)
      \<and> filter is_construction (fst (run_module API_KEY cs)) = [NewGoogleGenAI k]
      \<and> (\<forall>fx \<in> set (fst (run_module API_KEY cs)).
            \<forall>c. request_client fx = Some c \<longrightarrow> c = \<lparr>apiKey = k\<rparr>))"
proof (intro conjI impI)
  assume "API_KEY = None \<or> API_KEY = Some []"
  then show "run_module API_KEY cs =
      ([], Some (Error (lit ''API_KEY environment variable not set.'')))"
    by (auto simp: run_module_def module_init_def)
next
  assume key: "API_KEY = Some k \<and> k \<noteq> []"
  then show run: "run_module API_KEY cs = (NewGoogleGenAI k # call_all \<lparr>apiKey = k\<rparr> cs, None)"
    by (simp add: run_module_def module_init_def)
  show "filter is_construction (fst (run_module API_KEY cs)) = [NewGoogleGenAI k]"
    by (simp add: run call_all_no_construction)
  show "\<forall>fx \<in> set (fst (run_module API_KEY cs)).
          \<forall>c. request_client fx = Some c \<longrightarrow> c = \<lparr>apiKey = k\<rparr>"
    by (auto simp: run dest: call_all_client)
qed

theorem module_init_client_witness:
  "run_module None
     [(resolves \<lparr>candidates = None\<rparr>, Some (lit ''cGhvdG8=''), lit ''image/png'', lit ''add a hat'')]
   = ([], Some (Error (lit ''API_KEY environment variable not set.'')))
   \<and> filter is_construction (fst (run_module (Some (lit ''k''))
        [(resolves \<lparr>candidates = None\<rparr>, Some (lit ''cGhvdG8=''), lit ''image/png'',
          lit ''add a hat''),
         (rejects (Error (lit ''offline'')), Some (lit ''cGhvdG8=''), lit ''image/png'',
          lit ''add a scarf'')]))
     = [NewGoogleGenAI (lit ''k'')]
   \<and> map request_client (fst (run_module (Some (lit ''k''))
        [(resolves \<lparr>candidates = None\<rparr>, Some (lit ''cGhvdG8=''), lit ''image/png'',
          lit ''add a hat''),
         (rejects (Error (lit ''offline'')), Some (lit ''cGhvdG8=''), lit ''image/png'',
          lit ''add a scarf'')]))
     = [None, Some the_client, None, Some the_client, None]"
proof -
  let ?c1 = "(resolves \<lparr>candidates = None\<rparr>, Some (lit ''cGhvdG8=''), lit ''image/png'',
              lit ''add a hat'')"
  let ?c2 = "(rejects (Error (lit ''offline'')), Some (lit ''cGhvdG8=''), lit ''image/png'',
              lit ''add a scarf'')"
  have set: "Some (lit ''k'') = Some (lit ''k'') \<and> lit ''k'' \<noteq> []"
    by (simp add: lit_eq_Nil)
  have unset: "run_module None [?c1] =
      ([], Some (Error (lit ''API_KEY environment variable not set.'')))"
    using module_init_client [of None "[?c1]" "[]"] by blast
  have run: "run_module (Some (lit ''k'')) [?c1, ?c2] =
      (NewGoogleGenAI (lit ''k'') # call_all \<lparr>apiKey = lit ''k''\<rparr> [?c1, ?c2], None)"
    and once: "filter is_construction (fst (run_module (Some (lit ''k'')) [?c1, ?c2])) =
      [NewGoogleGenAI (lit ''k'')]"
    using module_init_client [of "Some (lit ''k'')" "[?c1, ?c2]" "lit ''k''"] set by blast+
  have calls: "map request_client (call_all \<lparr>apiKey = lit ''k''\<rparr> [?c1, ?c2]) =
      [Some the_client, None, Some the_client, None]"
    by (simp add: editImageWithGemini_def try_block_def response_parts_def resolves_def
        rejects_def the_client_def)
  have reqs: "map request_client (fst (run_module (Some (lit ''k'')) [?c1, ?c2])) =
      [None, Some the_client, None, Some the_client, None]"
    unfolding run using calls by simp
  from unset once reqs show ?thesis
    by (intro conjI)
qed

text \<open>
  \<open>API_KEY\<close> present in the environment but empty: \<open>!API_KEY\<close> holds, the module throws and
  no client is constructed.
\<close>

theorem module_init_empty_key_counterexample:
  "run_module (Some [])
     [(resolves \<lparr>candidates = None\<rparr>, Some (lit ''cGhvdG8=''), lit ''image/png'', lit ''add a hat'')]
   = ([], Some (Error (lit ''API_KEY environment variable not set.'')))
   \<and> filter is_construction (fst (run_module (Some [])
     [(resolves \<lparr>candidates = None\<rparr>, Some (lit ''cGhvdG8=''), lit ''image/png'',
       lit ''add a hat'')]))
     = []"
  by (simp add: run_module_def module_init_def)

end
